theory Spec2Isabelle
  imports Complex_Main
begin

section \<open>Conventions of the embedding\<close>

text \<open>
  The development embeds \<^verbatim>\<open>src/detection/hallucination_detector.py\<close> and
  \<^verbatim>\<open>src/evaluation/metrics.py\<close>.

  \<^item> Python \<^verbatim>\<open>float\<close> values are modelled as exact rationals (\<^typ>\<open>rat\<close>): the
    rounding of arithmetic on IEEE doubles is abstracted away, so a value such as
    \<open>1 / 10\<close> stands for the double that the computation produces next to it. The
    numbers that \<^verbatim>\<open>float\<close> parses from text are the exception: they are compared with
    \<^verbatim>\<open>==\<close>, so they are modelled as doubles, rounded as IEEE 754 prescribes.
  \<^item> Python \<^verbatim>\<open>str\<close> values are modelled as \<^typ>\<open>string\<close> and are meant to be ASCII
    text; the character classes below are the ASCII parts of the classes Python uses.
  \<^item> A Python dict is an association list in insertion order.
  \<^item> An exception raised to the caller is the \<open>Inl\<close> branch of a sum.
\<close>

datatype error = ValueError string | ZeroDivisionError

section \<open>Text primitives\<close>

text \<open>\<^verbatim>\<open>str.isspace\<close> on ASCII: TAB, LF, VT, FF, CR, FS, GS, RS, US and the blank.\<close>

definition whitespace :: "char list" where
  "whitespace = [CHR 0x09, CHR 0x0A, CHR 0x0B, CHR 0x0C, CHR 0x0D,
                 CHR 0x1C, CHR 0x1D, CHR 0x1E, CHR 0x1F, CHR 0x20]"

definition isspace :: "char \<Rightarrow> bool" where
  "isspace c = (c \<in> set whitespace)"

definition ascii_uppercase :: "char list" where
  "ascii_uppercase = ''ABCDEFGHIJKLMNOPQRSTUVWXYZ''"

definition ascii_lowercase :: "char list" where
  "ascii_lowercase = ''abcdefghijklmnopqrstuvwxyz''"

definition digits :: "char list" where
  "digits = ''0123456789''"

text \<open>\<^verbatim>\<open>string.punctuation\<close>, all 32 characters in Python's order.\<close>

definition punctuation :: "char list" where
  "punctuation = [CHR ''!'', CHR 0x22, CHR ''#'', CHR ''$'', CHR ''%'', CHR ''&'', CHR 0x27,
                  CHR ''('', CHR '')'', CHR ''*'', CHR ''+'', CHR '','', CHR ''-'', CHR ''.'',
                  CHR ''/'', CHR '':'', CHR '';'', CHR ''<'', CHR ''='', CHR ''>'', CHR ''?'',
                  CHR ''@'', CHR ''['', CHR 0x5C, CHR '']'', CHR ''^'', CHR ''_'', CHR 0x60,
                  CHR ''{'', CHR ''|'', CHR ''}'', CHR ''~'']"

definition isupper :: "char \<Rightarrow> bool" where
  "isupper c = (c \<in> set ascii_uppercase)"

definition islower :: "char \<Rightarrow> bool" where
  "islower c = (c \<in> set ascii_lowercase)"

definition isdigit :: "char \<Rightarrow> bool" where
  "isdigit c = (c \<in> set digits)"

text \<open>The class \<^verbatim>\<open>\w\<close> of the \<^verbatim>\<open>re\<close> module: letters, digits and the underscore.\<close>

definition isword :: "char \<Rightarrow> bool" where
  "isword c = (isupper c \<or> islower c \<or> isdigit c \<or> c = CHR ''_'')"

definition lower_char :: "char \<Rightarrow> char" where
  "lower_char c = (case map_of (zip ascii_uppercase ascii_lowercase) c of
                     Some d \<Rightarrow> d | None \<Rightarrow> c)"

definition lower :: "string \<Rightarrow> string" where
  "lower s = map lower_char s"

definition strip :: "string \<Rightarrow> string" where
  "strip s = rev (dropWhile isspace (rev (dropWhile isspace s)))"

text \<open>\<^verbatim>\<open>str.split()\<close> with no argument: the maximal runs of non-whitespace characters.
  The first argument is the token read so far.\<close>

fun split_from :: "string \<Rightarrow> string \<Rightarrow> string list" where
  "split_from cur [] = (if cur = [] then [] else [cur])"
| "split_from cur (c # cs) =
     (if isspace c
      then (if cur = [] then split_from [] cs else cur # split_from [] cs)
      else split_from (cur @ [c]) cs)"

definition split :: "string \<Rightarrow> string list" where
  "split s = split_from [] s"

text \<open>\<^verbatim>\<open>s.translate(str.maketrans('', '', string.punctuation))\<close> deletes the punctuation.\<close>

definition translate_punctuation :: "string \<Rightarrow> string" where
  "translate_punctuation s = filter (\<lambda>c. c \<notin> set punctuation) s"

text \<open>\<^verbatim>\<open>np.mean\<close> of a list of numbers (callers guard the empty list).\<close>

definition mean :: "rat list \<Rightarrow> rat" where
  "mean xs = sum_list xs / of_nat (length xs)"

section \<open>Regular-expression scanning\<close>

text \<open>
  \<^verbatim>\<open>re.findall\<close> scans left to right. A matcher receives the character before the
  current position (for \<^verbatim>\<open>\b\<close>) and the rest of the text, and returns the length of the
  match starting here, if any. After a match of length \<open>k\<close> the scan resumes behind it:
  the counter skips the \<open>k - 1\<close> characters that remain of the match.
\<close>

type_synonym matcher = "char option \<Rightarrow> string \<Rightarrow> nat option"

fun findall_from :: "matcher \<Rightarrow> nat \<Rightarrow> char option \<Rightarrow> string \<Rightarrow> string list" where
  "findall_from m skip prev [] = []"
| "findall_from m (Suc skip) prev (c # cs) = findall_from m skip (Some c) cs"
| "findall_from m 0 prev (c # cs) =
     (case m prev (c # cs) of
        Some k \<Rightarrow> take k (c # cs) # findall_from m (k - 1) (Some c) cs
      | None \<Rightarrow> findall_from m 0 (Some c) cs)"

definition findall :: "matcher \<Rightarrow> string \<Rightarrow> string list" where
  "findall m s = findall_from m 0 None s"

text \<open>\<^verbatim>\<open>\b\<close>: exactly one of the two neighbours is a word character; the ends of the
  text count as non-word.\<close>

definition word_boundary :: "char option \<Rightarrow> char option \<Rightarrow> bool" where
  "word_boundary a b =
     ((case a of None \<Rightarrow> False | Some c \<Rightarrow> isword c) \<noteq>
      (case b of None \<Rightarrow> False | Some c \<Rightarrow> isword c))"

definition next_char :: "string \<Rightarrow> char option" where
  "next_char s = (case s of [] \<Rightarrow> None | c # _ \<Rightarrow> Some c)"

text \<open>Value of a run of decimal digits, as \<^verbatim>\<open>int\<close> reads it.\<close>

definition digit_value :: "char \<Rightarrow> nat" where
  "digit_value c = (case map_of (zip digits [0..<10]) c of Some d \<Rightarrow> d | None \<Rightarrow> 0)"

definition int_of_digits :: "string \<Rightarrow> int" where
  "int_of_digits s = foldl (\<lambda>acc c. 10 * acc + int (digit_value c)) 0 s"

section \<open>Verdicts\<close>

text \<open>A number that \<^verbatim>\<open>float\<close> parsed from text: the exact value of a finite double, or an
  infinity. \<^verbatim>\<open>float\<close> of a numeric literal is never a NaN, and \<open>-0.0 == 0.0\<close>.\<close>

datatype double = Finite rat | PosInf | NegInf

record factual_evidence =
  ev_claim :: string
  ev_ground_truth :: string
  token_overlap :: rat
  exact_match :: bool
  numerical_match :: bool
  claim_numbers :: "double list"
  truth_numbers :: "double list"

record consistency_evidence =
  agreement_score :: rat
  num_samples :: nat
  responses :: "string list"
  most_common :: "(string \<times> nat) option"

record entity_evidence =
  found_entities :: "string list"
  missing_entities :: "string list"
  unexpected_entities :: "string list"
  expected_count :: nat
  found_count :: nat

record temporal_evidence =
  years_found :: "int list"
  chronologically_ordered :: bool
  future_years :: "int list"
  context_year :: "int option"
  context_mismatch :: bool

text \<open>The \<^verbatim>\<open>evidence\<close> dict of a verdict, one constructor per set of keys the code writes.\<close>

datatype evidence =
    ErrorEvidence string
  | NoteEvidence string
  | ConsistencyEvidence consistency_evidence
  | FactualEvidence factual_evidence
  | ContradictionEvidence (analysis: string) (original_text: string)
  | EntityEvidence entity_evidence
  | TemporalEvidence temporal_evidence

record HallucinationResult =
  is_hallucination :: bool
  confidence :: rat
  hallucination_type :: "string option"
  evidence :: evidence
  detection_method :: string

section \<open>Factual verification\<close>

text \<open>
  \<^verbatim>\<open>_extract_numbers\<close>: the pattern \<^verbatim>\<open>-?\d+\.?\d*\<close>. Every part after \<^verbatim>\<open>\d+\<close> is
  optional and greedy, so the match is: an optional minus that is followed by a digit,
  the whole run of digits, a dot if there is one, and the run of digits behind it.
\<close>

definition number_match :: "string \<Rightarrow> nat option" where
  "number_match s =
     (let sign = (if next_char s = Some (CHR ''-'') then 1 else 0);
          s1 = drop sign s;
          ip = takeWhile isdigit s1;
          s2 = drop (length ip) s1;
          dot = (if next_char s2 = Some (CHR ''.'') then 1 else 0);
          fp = takeWhile isdigit (drop dot s2)
      in if ip = [] then None else Some (sign + length ip + dot + length fp))"

definition number_matcher :: matcher where
  "number_matcher prev s = number_match s"

text \<open>
  \<^verbatim>\<open>float(n)\<close> on a matched literal. The literal denotes an exact rational, and \<^verbatim>\<open>float\<close>
  returns the IEEE 754 binary64 number nearest to it, ties to the even significand: two
  literals that round to the same double are equal numbers for the code.
\<close>

text \<open>\<^verbatim>\<open>int.bit_length\<close> of a non-negative integer, and the powers of two.\<close>

function bit_length :: "int \<Rightarrow> int" where
  "bit_length n = (if n \<le> 0 then 0 else 1 + bit_length (n div 2))"
  by pat_completeness auto
termination
  by (relation "measure nat") auto

function two_to :: "int \<Rightarrow> int" where
  "two_to k = (if k \<le> 0 then 1 else 2 * two_to (k - 1))"
  by pat_completeness auto
termination
  by (relation "measure nat") auto

definition pow2 :: "int \<Rightarrow> rat" where
  "pow2 q = (if q \<ge> 0 then of_int (two_to q) else 1 / of_int (two_to (- q)))"

text \<open>The exponent \<open>e\<close> with \<open>2 ^ e \<le> a < 2 ^ (e + 1)\<close>, for positive \<open>a\<close>.\<close>

definition floor_log2 :: "rat \<Rightarrow> int" where
  "floor_log2 a =
     (if a \<ge> 1 then bit_length \<lfloor>a\<rfloor> - 1 else - bit_length (\<lceil>1 / a\<rceil> - 1))"

definition round_half_even :: "rat \<Rightarrow> int" where
  "round_half_even r =
     (let f = \<lfloor>r\<rfloor>; d = r - of_int f
      in if d < 1 / 2 then f
         else if d > 1 / 2 then f + 1
         else if even f then f else f + 1)"

text \<open>
  Rounding to binary64: 53 significant bits, the least exponent -1022 (below it the
  spacing stays \<open>2 ^ -1074\<close>), overflow to infinity from \<open>2 ^ 1024\<close> on.
\<close>

definition round_to_double :: "rat \<Rightarrow> double" where
  "round_to_double x =
     (if x = 0 then Finite 0
      else
        let a = \<bar>x\<bar>;
            q = max (floor_log2 a) (- 1022) - 52;
            v = of_int (round_half_even (a / pow2 q)) * pow2 q
        in if v \<ge> pow2 1024 then (if x < 0 then NegInf else PosInf)
           else Finite (if x < 0 then - v else v))"

definition literal_value :: "string \<Rightarrow> rat" where
  "literal_value n =
     (let neg = (next_char n = Some (CHR ''-''));
          body = (if neg then drop 1 n else n);
          ip = takeWhile isdigit body;
          fp = takeWhile isdigit (drop (Suc (length ip)) body);
          v = of_int (int_of_digits ip) + of_int (int_of_digits fp) / 10 ^ length fp
      in if neg then - v else v)"

definition float_of_literal :: "string \<Rightarrow> double" where
  "float_of_literal n = round_to_double (literal_value n)"

definition extract_numbers :: "string \<Rightarrow> double list" where
  "extract_numbers text =
     map float_of_literal (filter (\<lambda>n. n \<noteq> [] \<and> n \<noteq> ''.'') (findall number_matcher text))"

text \<open>Lines 153 to 156: \<^verbatim>\<open>s.strip().lower().translate(translator)\<close>.\<close>

definition normalize :: "string \<Rightarrow> string" where
  "normalize s = translate_punctuation (lower (strip s))"

definition detect_factual_error :: "string \<Rightarrow> string \<Rightarrow> HallucinationResult" where
  "detect_factual_error claim ground_truth =
     (let claim_norm = normalize claim;
          truth_norm = normalize ground_truth;
          exact = (claim_norm = truth_norm);
          claim_tokens = set (split claim_norm);
          truth_tokens = set (split truth_norm)
      in if truth_tokens = {} then
           \<lparr> is_hallucination = False, confidence = 0, hallucination_type = None,
             evidence = ErrorEvidence ''Empty ground truth'',
             detection_method = ''factual_verification'' \<rparr>
         else
           let overlap = of_nat (card (claim_tokens \<inter> truth_tokens)) / of_nat (card truth_tokens);
               cnums = extract_numbers claim_norm;
               tnums = extract_numbers truth_norm;
               nmatch = (if tnums \<noteq> [] then cnums = tnums else True);
               is_h = (\<not> (exact \<or> overlap \<ge> 1 \<or> (overlap > 7 / 10 \<and> nmatch)));
               h_type = (if is_h
                         then (if \<not> nmatch then Some ''numerical_error''
                               else if overlap < 3 / 10 then Some ''fabrication''
                               else Some ''factual_error'')
                         else None)
           in \<lparr> is_hallucination = is_h, confidence = 1 - overlap, hallucination_type = h_type,
                evidence = FactualEvidence
                  \<lparr> ev_claim = claim, ev_ground_truth = ground_truth, token_overlap = overlap,
                    exact_match = exact, numerical_match = nmatch,
                    claim_numbers = cnums, truth_numbers = tnums \<rparr>,
                detection_method = ''factual_verification'' \<rparr>)"

section \<open>Self-consistency and agreement\<close>

text \<open>
  \<^verbatim>\<open>collections.Counter\<close>: the counts in order of first insertion, and
  \<^verbatim>\<open>most_common(1)\<close>, which returns the first entry that has the largest count.
\<close>

fun counter_add :: "'a \<Rightarrow> ('a \<times> nat) list \<Rightarrow> ('a \<times> nat) list" where
  "counter_add x [] = [(x, 1)]"
| "counter_add x ((y, n) # rest) =
     (if x = y then (y, Suc n) # rest else (y, n) # counter_add x rest)"

definition Counter :: "'a list \<Rightarrow> ('a \<times> nat) list" where
  "Counter xs = foldl (\<lambda>c x. counter_add x c) [] xs"

fun most_common1 :: "('a \<times> nat) list \<Rightarrow> ('a \<times> nat) option" where
  "most_common1 [] = None"
| "most_common1 (p # ps) =
     (case most_common1 ps of
        None \<Rightarrow> Some p
      | Some q \<Rightarrow> (if snd p < snd q then Some q else Some p))"

text \<open>The nested loop over \<open>i < j\<close>: the Jaccard similarity of each pair of token sets whose
  union is not empty, in the order the loop appends them.\<close>

fun pairwise_similarities :: "'a set list \<Rightarrow> rat list" where
  "pairwise_similarities [] = []"
| "pairwise_similarities (t # ts) =
     concat (map (\<lambda>u. if card (t \<union> u) > 0
                       then [of_nat (card (t \<inter> u)) / of_nat (card (t \<union> u))]
                       else []) ts)
     @ pairwise_similarities ts"

definition calculate_agreement :: "string list \<Rightarrow> rat" where
  "calculate_agreement rs =
     (if rs = [] then 0
      else
        let most_common_count = (case most_common1 (Counter rs) of
                                   Some (r, n) \<Rightarrow> n | None \<Rightarrow> 0);
            exact_agreement = of_nat most_common_count / of_nat (length rs);
            token_sets = map (\<lambda>r. set (split r)) rs;
            token_agreement =
              (if length token_sets > 1
               then (let similarities = pairwise_similarities token_sets
                     in if similarities \<noteq> [] then mean similarities else 0)
               else 1)
        in 1 / 2 * exact_agreement + 1 / 2 * token_agreement)"

text \<open>
  The text-generation collaborator. \<open>llm i prompt\<close> is the outcome of the \<open>i\<close>-th call that a
  detection method makes with \<open>prompt\<close>: the text of the response, or the message of the
  exception that \<^verbatim>\<open>generate\<close> raised.
\<close>

datatype generation = Generated string | Failed string

type_synonym llm_wrapper = "nat \<Rightarrow> string \<Rightarrow> generation"

text \<open>Lines 79 to 106 of \<^verbatim>\<open>detect_self_consistency\<close>: the verdict on the collected responses.\<close>

definition consistency_verdict :: "string list \<Rightarrow> HallucinationResult" where
  "consistency_verdict rs =
     (if length rs < 2 then
        \<lparr> is_hallucination = True, confidence = 1,
          hallucination_type = Some ''generation_failed'',
          evidence = ErrorEvidence ''Could not generate responses'',
          detection_method = ''self_consistency'' \<rparr>
      else
        let score = calculate_agreement rs;
            threshold = 6 / 10;
            is_h = (score < threshold)
        in \<lparr> is_hallucination = is_h,
             confidence = \<bar>score - threshold\<bar> / threshold,
             hallucination_type = (if is_h then Some ''inconsistency'' else None),
             evidence = ConsistencyEvidence
               \<lparr> agreement_score = score, num_samples = length rs, responses = rs,
                 most_common = most_common1 (Counter rs) \<rparr>,
             detection_method = ''self_consistency'' \<rparr>)"

text \<open>The sampling loop: a call that raises is logged and contributes no response.\<close>

definition sample_responses :: "llm_wrapper \<Rightarrow> string \<Rightarrow> int \<Rightarrow> string list" where
  "sample_responses llm prompt n =
     concat (map (\<lambda>i. case llm i prompt of
                         Generated t \<Rightarrow> [lower (strip t)]
                       | Failed e \<Rightarrow> [])
                 [0..<nat n])"

definition detect_self_consistency :: "llm_wrapper \<Rightarrow> string \<Rightarrow> int \<Rightarrow> HallucinationResult" where
  "detect_self_consistency llm prompt n = consistency_verdict (sample_responses llm prompt n)"

section \<open>Contradiction detection\<close>

text \<open>The substring test \<^verbatim>\<open>needle in text\<close>.\<close>

fun startswith :: "string \<Rightarrow> string \<Rightarrow> bool" where
  "startswith [] s = True"
| "startswith (p # ps) [] = False"
| "startswith (p # ps) (c # cs) = (p = c \<and> startswith ps cs)"

fun contains :: "string \<Rightarrow> string \<Rightarrow> bool" where
  "contains needle [] = (needle = [])"
| "contains needle (c # cs) = (startswith needle (c # cs) \<or> contains needle cs)"

definition contradiction_prompt :: "string \<Rightarrow> string" where
  "contradiction_prompt text =
     [CHR 0x0A] @ ''Analyze the following text for internal contradictions or inconsistencies.''
     @ [CHR 0x0A] @ ''If you find contradictions, list them clearly. If not, say ''
     @ [CHR 0x22] @ ''No contradictions found.'' @ [CHR 0x22]
     @ [CHR 0x0A, CHR 0x0A] @ ''Text: '' @ text
     @ [CHR 0x0A, CHR 0x0A] @ ''Contradictions:''"

definition detect_contradiction :: "llm_wrapper \<Rightarrow> string \<Rightarrow> HallucinationResult" where
  "detect_contradiction llm text =
     (case llm 0 (contradiction_prompt text) of
        Generated t \<Rightarrow>
          (let a = strip t;
               has_contradiction = (\<not> contains ''no contradictions'' (lower a))
           in \<lparr> is_hallucination = has_contradiction, confidence = 7 / 10,
                hallucination_type =
                  (if has_contradiction then Some ''logical_inconsistency'' else None),
                evidence = ContradictionEvidence a text,
                detection_method = ''contradiction_detection'' \<rparr>)
      | Failed e \<Rightarrow>
          \<lparr> is_hallucination = False, confidence = 0, hallucination_type = None,
            evidence = ErrorEvidence e,
            detection_method = ''contradiction_detection'' \<rparr>)"

section \<open>Entity verification\<close>

text \<open>
  The pattern \<^verbatim>\<open>\b[A-Z][a-z]+(?:\s+[A-Z][a-z]+)*\b\<close>.
  \<open>capitalized_word\<close> is \<^verbatim>\<open>[A-Z][a-z]+\<close> with its greedy run of lowercase letters; a
  shorter run is followed by a lowercase letter, where neither \<^verbatim>\<open>\s\<close> nor \<^verbatim>\<open>\b\<close>
  can match, so backtracking into the run never succeeds.
\<close>

definition capitalized_word :: "string \<Rightarrow> nat option" where
  "capitalized_word s =
     (case s of
        [] \<Rightarrow> None
      | c # cs \<Rightarrow>
          (let run = takeWhile islower cs
           in if isupper c \<and> run \<noteq> [] then Some (Suc (length run)) else None))"

text \<open>The greedy repetitions of \<^verbatim>\<open>(?:\s+[A-Z][a-z]+)\<close> behind offset \<open>off\<close>: the offset at
  which each repetition ends.\<close>

function span_ends :: "nat \<Rightarrow> string \<Rightarrow> nat list" where
  "span_ends off s =
     (let ws = takeWhile isspace s
      in if ws = [] then []
         else (case capitalized_word (drop (length ws) s) of
                 None \<Rightarrow> []
               | Some k \<Rightarrow> (off + length ws + k)
                           # span_ends (off + length ws + k) (drop k (drop (length ws) s))))"
  by pat_completeness auto
termination
  by (relation "measure (\<lambda>(off, s). length s)") (auto simp: takeWhile_eq_Nil_iff)

text \<open>
  The final \<^verbatim>\<open>\b\<close> is tried behind the last repetition first. When it fails there (the
  word is followed by another word character), the engine gives up that repetition; the
  one before ends in front of whitespace, where \<^verbatim>\<open>\b\<close> holds. With no repetition left
  the match fails.
\<close>

definition entity_matcher :: matcher where
  "entity_matcher prev s =
     (if \<not> word_boundary prev (next_char s) then None
      else case capitalized_word s of
             None \<Rightarrow> None
           | Some k \<Rightarrow>
               (let ends = k # span_ends k (drop k s);
                    e = last ends
                in if word_boundary (Some (s ! (e - 1))) (next_char (drop e s)) then Some e
                   else if length ends \<ge> 2 then Some (last (butlast ends))
                   else None))"

definition detect_entity_hallucination :: "string \<Rightarrow> string list \<Rightarrow> HallucinationResult" where
  "detect_entity_hallucination text expected_entities =
     (let text_lower = lower text;
          found = filter (\<lambda>e. contains (lower e) text_lower) expected_entities;
          missing = filter (\<lambda>e. \<not> contains (lower e) text_lower) expected_entities;
          potential_entities = findall entity_matcher text;
          unexpected = filter (\<lambda>e. e \<notin> set expected_entities) potential_entities;
          has_unexpected = (length unexpected > 0);
          missing_expected = (length missing > 0);
          is_h = (has_unexpected \<or> (missing_expected \<and> length found = 0))
      in \<lparr> is_hallucination = is_h,
           confidence = (if is_h then 8 / 10 else 9 / 10),
           hallucination_type = (if is_h then Some ''entity_error'' else None),
           evidence = EntityEvidence
             \<lparr> found_entities = found, missing_entities = missing,
               unexpected_entities = take 5 unexpected,
               expected_count = length expected_entities, found_count = length found \<rparr>,
           detection_method = ''entity_verification'' \<rparr>)"

section \<open>Temporal verification\<close>

text \<open>The pattern \<^verbatim>\<open>\b(1[0-9]{3}|20[0-2][0-9])\b\<close>; the two alternatives differ in their
  first character, so at most one of them applies at a position.\<close>

definition year_matcher :: matcher where
  "year_matcher prev s =
     (case s of
        a # b # c # d # rest \<Rightarrow>
          (if word_boundary prev (Some a)
              \<and> ((a = CHR ''1'' \<and> isdigit b \<and> isdigit c \<and> isdigit d)
                 \<or> (a = CHR ''2'' \<and> b = CHR ''0'' \<and> c \<in> set ''012'' \<and> isdigit d))
              \<and> word_boundary (Some d) (next_char rest)
           then Some 4 else None)
      | _ \<Rightarrow> None)"

definition extract_years :: "string \<Rightarrow> int list" where
  "extract_years text = map int_of_digits (findall year_matcher text)"

definition current_year :: int where
  "current_year = 2025"

definition detect_temporal_error :: "string \<Rightarrow> int option \<Rightarrow> HallucinationResult" where
  "detect_temporal_error text ctx_year =
     (let years = extract_years text
      in if years = [] then
           \<lparr> is_hallucination = False, confidence = 0, hallucination_type = None,
             evidence = NoteEvidence ''No temporal references found'',
             detection_method = ''temporal_verification'' \<rparr>
         else
           let is_sorted = (years = sort years);
               future = filter (\<lambda>y. y > current_year) years;
               mismatch = (case ctx_year of
                             None \<Rightarrow> False
                           | Some cy \<Rightarrow> (if cy \<noteq> 0 then list_all (\<lambda>y. \<bar>y - cy\<bar> > 10) years
                                        else False));
               is_h = (length future > 0 \<or> mismatch)
           in \<lparr> is_hallucination = is_h,
                confidence = (if is_h then 9 / 10 else 7 / 10),
                hallucination_type = (if is_h then Some ''temporal_error'' else None),
                evidence = TemporalEvidence
                  \<lparr> years_found = years, chronologically_ordered = is_sorted,
                    future_years = future, context_year = ctx_year,
                    context_mismatch = mismatch \<rparr>,
                detection_method = ''temporal_verification'' \<rparr>)"

section \<open>Aggregation\<close>



section \<open>Evaluation metrics\<close>

text \<open>\<^verbatim>\<open>sum(f(p, g) for p, g in zip(xs, ys))\<close>: the number of pairs that satisfy \<open>f\<close>.\<close>

definition count_pairs :: "(bool \<Rightarrow> bool \<Rightarrow> bool) \<Rightarrow> bool list \<Rightarrow> bool list \<Rightarrow> nat" where
  "count_pairs f xs ys = length (filter (\<lambda>(p, g). f p g) (zip xs ys))"

definition accuracy :: "bool list \<Rightarrow> bool list \<Rightarrow> error + rat" where
  "accuracy predictions ground_truth =
     (if length predictions \<noteq> length ground_truth
      then Inl (ValueError ''Predictions and ground truth must have same length'')
      else Inr (if predictions \<noteq> []
                then of_nat (count_pairs (\<lambda>p g. p = g) predictions ground_truth)
                     / of_nat (length predictions)
                else 0))"

record prf_metrics =
  precision :: rat
  recall :: rat
  f1 :: rat
  tp :: nat
  fp :: nat
  fn :: nat
  tn :: nat

definition precision_recall_f1 :: "bool list \<Rightarrow> bool list \<Rightarrow> error + prf_metrics" where
  "precision_recall_f1 predictions ground_truth =
     (if length predictions \<noteq> length ground_truth
      then Inl (ValueError ''Predictions and ground truth must have same length'')
      else
        let tp' = count_pairs (\<lambda>p g. p \<and> g) predictions ground_truth;
            fp' = count_pairs (\<lambda>p g. p \<and> \<not> g) predictions ground_truth;
            fn' = count_pairs (\<lambda>p g. \<not> p \<and> g) predictions ground_truth;
            tn' = count_pairs (\<lambda>p g. \<not> p \<and> \<not> g) predictions ground_truth;
            pr = (if tp' + fp' > 0 then of_nat tp' / of_nat (tp' + fp') else 0);
            rc = (if tp' + fn' > 0 then of_nat tp' / of_nat (tp' + fn') else 0);
            f = (if pr + rc > 0 then 2 * pr * rc / (pr + rc) else 0)
        in Inr \<lparr> precision = pr, recall = rc, f1 = f,
                 tp = tp', fp = fp', fn = fn', tn = tn' \<rparr>)"

definition hallucination_rate :: "bool list \<Rightarrow> rat" where
  "hallucination_rate predictions =
     (if predictions = [] then 0
      else of_nat (length (filter (\<lambda>p. p) predictions)) / of_nat (length predictions))"

subsection \<open>Calibration\<close>

record calibration_bin =
  bin_index :: nat
  bin_range :: "rat \<times> rat"
  avg_confidence :: rat
  bin_accuracy :: rat
  bin_count :: nat
  gap :: rat

record calibration =
  ece :: rat
  bins :: "calibration_bin list"
  num_bins :: "nat option"

text \<open>\<^verbatim>\<open>np.linspace(0, 1, n + 1)\<close>, \<^verbatim>\<open>np.digitize\<close> for increasing edges (the number of
  edges that are at most \<open>x\<close>) and \<^verbatim>\<open>np.clip\<close>. The number of bins is a natural number;
  the edges are meant for at least one bin.\<close>

definition linspace01 :: "nat \<Rightarrow> rat list" where
  "linspace01 n = map (\<lambda>i. of_nat i / of_nat n) [0..<Suc n]"

definition digitize :: "rat \<Rightarrow> rat list \<Rightarrow> nat" where
  "digitize x edges = length (filter (\<lambda>b. b \<le> x) edges)"

definition clip :: "int \<Rightarrow> int \<Rightarrow> int \<Rightarrow> int" where
  "clip a lo hi = min (max a lo) hi"

definition bin_indices :: "rat list \<Rightarrow> nat \<Rightarrow> int list" where
  "bin_indices confidences n =
     map (\<lambda>c. clip (int (digitize c (butlast (linspace01 n))) - 1) 0 (int n - 1)) confidences"

text \<open>One turn of the loop over the bins: \<^verbatim>\<open>None\<close> is the \<^verbatim>\<open>continue\<close> of an empty bin.\<close>

definition calibration_bin_at ::
  "rat list \<Rightarrow> bool list \<Rightarrow> nat \<Rightarrow> nat \<Rightarrow> calibration_bin option" where
  "calibration_bin_at confidences correct n i =
     (let members = filter (\<lambda>(k, c, b). k = int i)
                      (zip (bin_indices confidences n) (zip confidences correct));
          bin_confidences = map (\<lambda>(k, c, b). c) members;
          bin_correct = map (\<lambda>(k, c, b). b) members
      in if members = [] then None
         else
           let avg = mean bin_confidences;
               acc = mean (map (\<lambda>b. if b then 1 else 0) bin_correct)
           in Some \<lparr> bin_index = i,
                    bin_range = (linspace01 n ! i, linspace01 n ! Suc i),
                    avg_confidence = avg, bin_accuracy = acc,
                    bin_count = length bin_confidences, gap = \<bar>avg - acc\<bar> \<rparr>)"

definition confidence_calibration ::
  "rat list \<Rightarrow> bool list \<Rightarrow> nat \<Rightarrow> error + calibration" where
  "confidence_calibration confidences correct n =
     (if length confidences \<noteq> length correct
      then Inl (ValueError ''Confidences and correct must have same length'')
      else if confidences = [] then Inr \<lparr> ece = 0, bins = [], num_bins = None \<rparr>
      else
        let bin_data = concat (map (\<lambda>i. case calibration_bin_at confidences correct n i of
                                          None \<Rightarrow> [] | Some b \<Rightarrow> [b]) [0..<n]);
            total_samples = length confidences;
            total_ece = sum_list (map (\<lambda>b. of_nat (bin_count b) / of_nat total_samples
                                            * \<bar>avg_confidence b - bin_accuracy b\<bar>) bin_data)
        in Inr \<lparr> ece = total_ece, bins = bin_data, num_bins = Some n \<rparr>)"

subsection \<open>Grouped metrics\<close>

text \<open>Assignment \<^verbatim>\<open>d[k] = v\<close> on a dict: an existing key keeps its place.\<close>

fun dict_set :: "'k \<Rightarrow> 'v \<Rightarrow> ('k \<times> 'v) list \<Rightarrow> ('k \<times> 'v) list" where
  "dict_set k v [] = [(k, v)]"
| "dict_set k v ((k', v') # rest) =
     (if k = k' then (k, v) # rest else (k', v') # dict_set k v rest)"

text \<open>The \<^verbatim>\<open>defaultdict\<close> of \<^verbatim>\<open>error_analysis_by_type\<close>: the predictions and the labels
  of each type, in order.\<close>

fun type_data_append ::
  "string \<Rightarrow> bool \<Rightarrow> bool \<Rightarrow> (string \<times> bool list \<times> bool list) list
     \<Rightarrow> (string \<times> bool list \<times> bool list) list" where
  "type_data_append h p g [] = [(h, [p], [g])]"
| "type_data_append h p g ((h', ps, gs) # rest) =
     (if h = h' then (h', ps @ [p], gs @ [g]) # rest
      else (h', ps, gs) # type_data_append h p g rest)"

record type_metrics =
  type_prf :: prf_metrics
  type_accuracy :: rat
  type_count :: nat

fun analyse_types ::
  "(string \<times> bool list \<times> bool list) list \<Rightarrow> (string \<times> type_metrics) list
     \<Rightarrow> error + (string \<times> type_metrics) list" where
  "analyse_types [] results = Inr results"
| "analyse_types ((h, preds, truth) # rest) results =
     (case precision_recall_f1 preds truth of
        Inl e \<Rightarrow> Inl e
      | Inr m \<Rightarrow>
          (case accuracy preds truth of
             Inl e \<Rightarrow> Inl e
           | Inr a \<Rightarrow>
               analyse_types rest
                 (dict_set h \<lparr> type_prf = m, type_accuracy = a, type_count = length preds \<rparr>
                    results)))"

definition error_analysis_by_type ::
  "bool list \<Rightarrow> bool list \<Rightarrow> string list \<Rightarrow> error + (string \<times> type_metrics) list" where
  "error_analysis_by_type predictions ground_truth hallucination_types =
     (if \<not> (length predictions = length ground_truth
             \<and> length ground_truth = length hallucination_types)
      then Inl (ValueError ''All inputs must have same length'')
      else
        let type_data = foldl (\<lambda>d (p, g, h). type_data_append h p g d) []
                          (zip predictions (zip ground_truth hallucination_types))
        in analyse_types type_data [])"

record method_metrics =
  method_prf :: prf_metrics
  method_accuracy :: rat
  method_hallucination_rate :: rat

text \<open>The loop of \<^verbatim>\<open>compare_methods\<close>; an entry of another length than the labels is
  logged and skipped.\<close>

fun compare_methods_loop ::
  "(string \<times> bool list) list \<Rightarrow> bool list \<Rightarrow> (string \<times> method_metrics) list
     \<Rightarrow> error + (string \<times> method_metrics) list" where
  "compare_methods_loop [] ground_truth comparison = Inr comparison"
| "compare_methods_loop ((method_name, predictions) # rest) ground_truth comparison =
     (if length predictions \<noteq> length ground_truth
      then compare_methods_loop rest ground_truth comparison
      else
        (case precision_recall_f1 predictions ground_truth of
           Inl e \<Rightarrow> Inl e
         | Inr m \<Rightarrow>
             (case accuracy predictions ground_truth of
                Inl e \<Rightarrow> Inl e
              | Inr a \<Rightarrow>
                  compare_methods_loop rest ground_truth
                    (dict_set method_name
                       \<lparr> method_prf = m, method_accuracy = a,
                         method_hallucination_rate = hallucination_rate predictions \<rparr>
                       comparison))))"

definition compare_methods ::
  "(string \<times> bool list) list \<Rightarrow> bool list \<Rightarrow> error + (string \<times> method_metrics) list" where
  "compare_methods method_results ground_truth =
     compare_methods_loop method_results ground_truth []"

record model_metrics =
  exact_match_rate :: rat
  avg_token_overlap :: rat
  model_hallucination_rate :: rat
  model_num_samples :: nat

definition response_overlap :: "string \<Rightarrow> string \<Rightarrow> rat" where
  "response_overlap response truth =
     (let r_tokens = set (split (lower response));
          g_tokens = set (split (lower truth))
      in if g_tokens \<noteq> {} then of_nat (card (r_tokens \<inter> g_tokens)) / of_nat (card g_tokens)
         else 0)"

text \<open>The loop of \<^verbatim>\<open>model_comparison\<close>. With no sample at all the rate
  \<^verbatim>\<open>sum(exact_matches) / len(exact_matches)\<close> divides by zero.\<close>

fun model_comparison_loop ::
  "(string \<times> string list) list \<Rightarrow> string list \<Rightarrow> (string \<times> model_metrics) list
     \<Rightarrow> error + (string \<times> model_metrics) list" where
  "model_comparison_loop [] ground_truths comparison = Inr comparison"
| "model_comparison_loop ((model_name, rs) # rest) ground_truths comparison =
     (if length rs \<noteq> length ground_truths
      then model_comparison_loop rest ground_truths comparison
      else
        let exact_matches = map (\<lambda>(r, g). lower (strip r) = lower (strip g))
                              (zip rs ground_truths);
            overlaps = map (\<lambda>(r, g). response_overlap r g) (zip rs ground_truths);
            matches = length (filter (\<lambda>b. b) exact_matches)
        in if exact_matches = [] then Inl ZeroDivisionError
           else
             model_comparison_loop rest ground_truths
               (dict_set model_name
                  \<lparr> exact_match_rate = of_nat matches / of_nat (length exact_matches),
                    avg_token_overlap = mean overlaps,
                    model_hallucination_rate =
                      1 - of_nat matches / of_nat (length exact_matches),
                    model_num_samples = length rs \<rparr>
                  comparison))"

definition model_comparison ::
  "(string \<times> string list) list \<Rightarrow> string list \<Rightarrow> error + (string \<times> model_metrics) list" where
  "model_comparison model_responses ground_truths =
     model_comparison_loop model_responses ground_truths []"

record mitigation =
  baseline_hallucination_rate :: rat
  mitigated_hallucination_rate :: rat
  absolute_reduction :: rat
  relative_reduction_percent :: rat
  improvements :: nat
  degradations :: nat
  unchanged :: int
  net_improvement :: int

definition mitigation_effectiveness :: "bool list \<Rightarrow> bool list \<Rightarrow> error + mitigation" where
  "mitigation_effectiveness baseline mitigated =
     (if length baseline \<noteq> length mitigated
      then Inl (ValueError ''Inputs must have same length'')
      else if baseline = [] then Inl ZeroDivisionError
      else
        let baseline_rate = of_nat (length (filter (\<lambda>b. b) baseline))
                            / of_nat (length baseline);
            mitigated_rate = of_nat (length (filter (\<lambda>b. b) mitigated))
                             / of_nat (length mitigated);
            reduction = baseline_rate - mitigated_rate;
            relative = (if baseline_rate > 0 then reduction / baseline_rate * 100 else 0);
            imp = count_pairs (\<lambda>b m. b \<and> \<not> m) baseline mitigated;
            deg = count_pairs (\<lambda>b m. \<not> b \<and> m) baseline mitigated
        in Inr \<lparr> baseline_hallucination_rate = baseline_rate,
                 mitigated_hallucination_rate = mitigated_rate,
                 absolute_reduction = reduction,
                 relative_reduction_percent = relative,
                 improvements = imp, degradations = deg,
                 unchanged = int (length baseline) - int imp - int deg,
                 net_improvement = int imp - int deg \<rparr>)"

section \<open>Named quantities of the factual check\<close>

text \<open>The value \<^verbatim>\<open>overlap\<close> of line 174 and the flag \<^verbatim>\<open>numerical_match\<close> of lines 180 to
  182, as functions of the two arguments of \<open>detect_factual_error\<close>.\<close>

definition token_overlap_ratio :: "string \<Rightarrow> string \<Rightarrow> rat" where
  "token_overlap_ratio claim ground_truth =
     of_nat (card (set (split (normalize claim)) \<inter> set (split (normalize ground_truth))))
     / of_nat (card (set (split (normalize ground_truth))))"

definition numbers_match :: "string \<Rightarrow> string \<Rightarrow> bool" where
  "numbers_match claim ground_truth =
     (extract_numbers (normalize ground_truth) = []
      \<or> extract_numbers (normalize claim) = extract_numbers (normalize ground_truth))"

section \<open>Verified properties\<close>

subsection \<open>Degenerate ground truth\<close>

text \<open>
  Claim C9. For every claim string and every ground truth that normalizes to zero tokens,
  \<open>detect_factual_error\<close> returns a verdict (it does not raise) with
  \<open>is_hallucination = False\<close>, confidence 0, no hallucination type, and the evidence
  \<^verbatim>\<open>{"error": "Empty ground truth"}\<close>.
\<close>

theorem empty_ground_truth_verdict:
  "set (split (normalize ground_truth)) = {} \<Longrightarrow>
   detect_factual_error claim ground_truth =
     \<lparr> is_hallucination = False, confidence = 0, hallucination_type = None,
       evidence = ErrorEvidence ''Empty ground truth'',
       detection_method = ''factual_verification'' \<rparr>"
  by (simp add: detect_factual_error_def Let_def)

lemma punctuation_only_has_no_token: "split (normalize '' .,! '') = []"
  by code_simp

theorem empty_ground_truth_verdict_witness:
  "set (split (normalize '' .,! '')) = {} \<and>
   detect_factual_error ''Paris'' '' .,! '' =
     \<lparr> is_hallucination = False, confidence = 0, hallucination_type = None,
       evidence = ErrorEvidence ''Empty ground truth'',
       detection_method = ''factual_verification'' \<rparr>"
  using empty_ground_truth_verdict [of "'' .,! ''" "''Paris''"]
  by (simp add: punctuation_only_has_no_token)

subsection \<open>Failures of the text-generation collaborator\<close>

lemma sample_responses_all_failed:
  assumes "\<And>i p. llm i p = Failed (msg i p)"
  shows "sample_responses llm prompt n = []"
  by (simp add: sample_responses_def assms)

text \<open>
  Claim C8. When the text-generation collaborator raises on every call,
  \<open>detect_self_consistency\<close> returns the verdict with \<open>is_hallucination = True\<close>,
  confidence 1 and type \<^verbatim>\<open>generation_failed\<close>, and \<open>detect_contradiction\<close> returns the
  verdict with \<open>is_hallucination = False\<close>, confidence 0 and the message of the exception
  in its evidence. Both return a verdict: the exception does not leave the method.
\<close>

theorem collaborator_failure_verdicts:
  assumes "\<And>i p. llm i p = Failed (msg i p)"
  shows "detect_self_consistency llm prompt n =
           \<lparr> is_hallucination = True, confidence = 1,
             hallucination_type = Some ''generation_failed'',
             evidence = ErrorEvidence ''Could not generate responses'',
             detection_method = ''self_consistency'' \<rparr>
         \<and> detect_contradiction llm text =
           \<lparr> is_hallucination = False, confidence = 0, hallucination_type = None,
             evidence = ErrorEvidence (msg 0 (contradiction_prompt text)),
             detection_method = ''contradiction_detection'' \<rparr>"
proof -
  have "sample_responses llm prompt n = []"
    using assms by (rule sample_responses_all_failed)
  then have "detect_self_consistency llm prompt n = consistency_verdict []"
    by (simp add: detect_self_consistency_def)
  moreover have "llm 0 (contradiction_prompt text) = Failed (msg 0 (contradiction_prompt text))"
    by (rule assms)
  ultimately show ?thesis
    by (simp add: consistency_verdict_def detect_contradiction_def)
qed

theorem collaborator_failure_verdicts_witness:
  "detect_self_consistency (\<lambda>i p. Failed ''quota exceeded'') ''Who wrote Hamlet?'' 5 =
     \<lparr> is_hallucination = True, confidence = 1,
       hallucination_type = Some ''generation_failed'',
       evidence = ErrorEvidence ''Could not generate responses'',
       detection_method = ''self_consistency'' \<rparr>
   \<and> detect_contradiction (\<lambda>i p. Failed ''quota exceeded'') ''It rains. It is dry.'' =
     \<lparr> is_hallucination = False, confidence = 0, hallucination_type = None,
       evidence = ErrorEvidence ''quota exceeded'',
       detection_method = ''contradiction_detection'' \<rparr>"
  using collaborator_failure_verdicts
    [of "\<lambda>i p. Failed ''quota exceeded''" "\<lambda>i p. ''quota exceeded''"
        "''Who wrote Hamlet?''" 5 "''It rains. It is dry.''"]
  by simp

subsection \<open>Unexpected entities\<close>

text \<open>
  Claim C10. For every text and expected-entity list, if the capitalized-span extraction
  yields at least one span that is not an element of the expected list (list membership
  is exact and case-sensitive), then \<open>detect_entity_hallucination\<close> returns
  \<open>is_hallucination = True\<close> with confidence 0.8 and type \<^verbatim>\<open>entity_error\<close>. The witness
  is a text that starts with \<^verbatim>\<open>The\<close> while the expected list holds \<^verbatim>\<open>the\<close>.
\<close>

theorem unexpected_entity_is_flagged:
  assumes "\<exists>e \<in> set (findall entity_matcher text). e \<notin> set expected_entities"
  shows "is_hallucination (detect_entity_hallucination text expected_entities)
       \<and> confidence (detect_entity_hallucination text expected_entities) = 8 / 10
       \<and> hallucination_type (detect_entity_hallucination text expected_entities)
           = Some ''entity_error''"
proof -
  from assms
  have "filter (\<lambda>e. e \<notin> set expected_entities) (findall entity_matcher text) \<noteq> []"
    by (auto simp: filter_empty_conv)
  then show ?thesis
    by (simp add: detect_entity_hallucination_def Let_def)
qed

lemma spans_of_the_cat_sat: "findall entity_matcher ''The cat sat'' = [''The'']"
  by code_simp

theorem unexpected_entity_is_flagged_witness:
  "(\<exists>e \<in> set (findall entity_matcher ''The cat sat''). e \<notin> set [''the''])
   \<and> is_hallucination (detect_entity_hallucination ''The cat sat'' [''the''])
   \<and> confidence (detect_entity_hallucination ''The cat sat'' [''the'']) = 8 / 10
   \<and> hallucination_type (detect_entity_hallucination ''The cat sat'' [''the''])
       = Some ''entity_error''"
  using unexpected_entity_is_flagged [of "''The cat sat''" "[''the'']"]
  by (simp add: spans_of_the_cat_sat)

subsection \<open>Tokens, normalized text and extracted numbers\<close>

lemma overlap_bounds:
  assumes "set (split (normalize ground_truth)) \<noteq> {}"
  shows "0 \<le> token_overlap_ratio claim ground_truth"
    and "token_overlap_ratio claim ground_truth \<le> 1"
    and "(token_overlap_ratio claim ground_truth \<ge> 1)
         = (set (split (normalize ground_truth)) \<subseteq> set (split (normalize claim)))"
proof -
  let ?C = "set (split (normalize claim))"
  let ?T = "set (split (normalize ground_truth))"
  have fin: "finite ?T" by simp
  have pos: "0 < card ?T" using assms by (simp add: card_gt_0_iff)
  have le: "card (?C \<inter> ?T) \<le> card ?T"
    by (rule card_mono) simp_all
  show "0 \<le> token_overlap_ratio claim ground_truth"
    by (simp add: token_overlap_ratio_def)
  show "token_overlap_ratio claim ground_truth \<le> 1"
    using pos le by (simp add: token_overlap_ratio_def)
  have "(token_overlap_ratio claim ground_truth \<ge> 1) = (card ?T \<le> card (?C \<inter> ?T))"
    using pos by (simp add: token_overlap_ratio_def)
  also have "\<dots> = (?C \<inter> ?T = ?T)"
  proof
    assume "card ?T \<le> card (?C \<inter> ?T)"
    then show "?C \<inter> ?T = ?T"
      using fin by (intro card_seteq) simp_all
  next
    assume "?C \<inter> ?T = ?T"
    then show "card ?T \<le> card (?C \<inter> ?T)" by simp
  qed
  also have "\<dots> = (?T \<subseteq> ?C)"
    by blast
  finally show "(token_overlap_ratio claim ground_truth \<ge> 1) = (?T \<subseteq> ?C)" .
qed

lemma lower_char_not_upper: "\<not> isupper (lower_char c)"
proof (cases "isupper c")
  case True
  then show ?thesis
    by (auto simp: isupper_def lower_char_def ascii_uppercase_def ascii_lowercase_def)
next
  case False
  then have "map_of (zip ascii_uppercase ascii_lowercase) c = None"
    by (simp add: isupper_def map_of_eq_None_iff ascii_uppercase_def ascii_lowercase_def)
  with False show ?thesis
    by (simp add: lower_char_def)
qed

lemma normalize_chars:
  assumes "c \<in> set (normalize s)"
  shows "\<not> isupper c \<and> c \<notin> set punctuation"
proof -
  from assms have "c \<in> set (lower (strip s))" "c \<notin> set punctuation"
    by (simp_all add: normalize_def translate_punctuation_def)
  then show ?thesis
    by (auto simp: lower_def lower_char_not_upper)
qed

lemma findall_from_suffix:
  "x \<in> set (findall_from m skip prev s) \<Longrightarrow>
   \<exists>p t k pre. m p t = Some k \<and> x = take k t \<and> s = pre @ t"
proof (induction m skip prev s rule: findall_from.induct)
  case (1 m skip prev)
  then show ?case by simp
next
  case (2 m skip prev c cs)
  then obtain p t k pre where "m p t = Some k" "x = take k t" "cs = pre @ t"
    by auto
  then have "m p t = Some k \<and> x = take k t \<and> c # cs = (c # pre) @ t"
    by simp
  then show ?case by blast
next
  case (3 m prev c cs)
  show ?case
  proof (cases "m prev (c # cs)")
    case None
    with 3 obtain p t k pre where "m p t = Some k" "x = take k t" "cs = pre @ t"
      by auto
    then have "m p t = Some k \<and> x = take k t \<and> c # cs = (c # pre) @ t"
      by simp
    then show ?thesis by blast
  next
    case (Some k)
    with "3.prems" have "x = take k (c # cs) \<or> x \<in> set (findall_from m (k - 1) (Some c) cs)"
      by simp
    then show ?thesis
    proof
      assume "x = take k (c # cs)"
      with Some have "m prev (c # cs) = Some k \<and> x = take k (c # cs) \<and> c # cs = [] @ (c # cs)"
        by simp
      then show ?thesis by blast
    next
      assume "x \<in> set (findall_from m (k - 1) (Some c) cs)"
      with "3.IH"(2) [OF Some] obtain p t j pre where
        "m p t = Some j" "x = take j t" "cs = pre @ t"
        by blast
      then have "m p t = Some j \<and> x = take j t \<and> c # cs = (c # pre) @ t"
        by simp
      then show ?thesis by blast
    qed
  qed
qed

lemma number_match_has_digit:
  assumes "number_match t = Some k"
  shows "\<exists>c \<in> set (take k t). isdigit c"
proof -
  let ?sign = "if next_char t = Some (CHR ''-'') then 1 else 0 :: nat"
  let ?ip = "takeWhile isdigit (drop ?sign t)"
  from assms have ip: "?ip \<noteq> []" and k: "?sign + length ?ip \<le> k"
    by (auto simp: number_match_def Let_def split: if_splits)
  from ip obtain d where d: "d \<in> set ?ip" by (cases ?ip) auto
  then have dig: "isdigit d" by (auto dest: set_takeWhileD)
  have "?ip = take (length ?ip) (drop ?sign t)"
    by (metis takeWhile_eq_take)
  then have "set ?ip \<subseteq> set (take (?sign + length ?ip) t)"
    by (metis set_take_subset_set_take take_add set_append Un_upper2 le_refl)
  also have "\<dots> \<subseteq> set (take k t)"
    using k by (rule set_take_subset_set_take)
  finally show ?thesis using d dig by blast
qed


lemma minus_is_no_digit: "\<not> isdigit (CHR ''-'')"
  by (simp add: isdigit_def digits_def)

lemma dot_is_no_digit: "\<not> isdigit (CHR ''.'')"
  by (simp add: isdigit_def digits_def)

lemma number_match_at_digit:
  assumes "isdigit c"
  shows "number_match (c # cs) \<noteq> None"
proof -
  from assms have "c \<noteq> CHR ''-''"
    using minus_is_no_digit by auto
  with assms show ?thesis
    by (simp add: number_match_def next_char_def Let_def)
qed

lemma digit_is_found:
  "\<exists>c \<in> set s. isdigit c \<Longrightarrow> findall_from number_matcher 0 prev s \<noteq> []"
proof (induction s arbitrary: prev)
  case Nil
  then show ?case by simp
next
  case (Cons c cs)
  show ?case
  proof (cases "number_matcher prev (c # cs)")
    case (Some k)
    then show ?thesis by simp
  next
    case None
    then have "\<not> isdigit c"
      using number_match_at_digit [of c cs] by (auto simp: number_matcher_def)
    with Cons.prems have "\<exists>d \<in> set cs. isdigit d"
      by auto
    from Cons.IH [OF this] None show ?thesis
      by simp
  qed
qed

lemma found_number_has_digit:
  assumes "x \<in> set (findall number_matcher s)"
  shows "(\<exists>c \<in> set x. isdigit c) \<and> (\<exists>c \<in> set s. isdigit c)"
proof -
  from assms obtain p t k pre where
    m: "number_matcher p t = Some k" and x: "x = take k t" and s: "s = pre @ t"
    unfolding findall_def using findall_from_suffix by blast
  from m have "\<exists>c \<in> set (take k t). isdigit c"
    by (simp add: number_matcher_def number_match_has_digit)
  then obtain c where c: "c \<in> set (take k t)" "isdigit c"
    by blast
  then have "c \<in> set t"
    by (auto dest: in_set_takeD)
  with c x s show ?thesis
    by auto
qed

lemma extract_numbers_empty_iff:
  "(extract_numbers s = []) = (\<forall>c \<in> set s. \<not> isdigit c)"
proof
  assume e: "extract_numbers s = []"
  show "\<forall>c \<in> set s. \<not> isdigit c"
  proof (rule ccontr)
    assume "\<not> (\<forall>c \<in> set s. \<not> isdigit c)"
    then have "\<exists>c \<in> set s. isdigit c"
      by blast
    then have "findall number_matcher s \<noteq> []"
      unfolding findall_def by (rule digit_is_found)
    then obtain x where x: "x \<in> set (findall number_matcher s)"
      by (cases "findall number_matcher s") auto
    then obtain c where "c \<in> set x" "isdigit c"
      using found_number_has_digit by blast
    then have "x \<noteq> [] \<and> x \<noteq> ''.''"
      using dot_is_no_digit by auto
    with x e show False
      by (auto simp: extract_numbers_def filter_empty_conv)
  qed
next
  assume "\<forall>c \<in> set s. \<not> isdigit c"
  then have "findall number_matcher s = []"
    using found_number_has_digit [of _ s] by (cases "findall number_matcher s") auto
  then show "extract_numbers s = []"
    by (simp add: extract_numbers_def)
qed

subsection \<open>The factual verdict\<close>

lemma paris_is_paris:
  "detect_factual_error ''Paris'' ''Paris'' =
     \<lparr> is_hallucination = False, confidence = 0, hallucination_type = None,
       evidence = FactualEvidence
         \<lparr> ev_claim = ''Paris'', ev_ground_truth = ''Paris'', token_overlap = 1,
           exact_match = True, numerical_match = True,
           claim_numbers = [], truth_numbers = [] \<rparr>,
       detection_method = ''factual_verification'' \<rparr>"
  by code_simp

lemma verbose_answer_passes:
  "\<not> is_hallucination (detect_factual_error ''The capital is Paris, France'' ''Paris'')"
  by code_simp

lemma wrong_number_is_flagged:
  "is_hallucination (detect_factual_error ''a b c 15'' ''a b c 12'')
   \<and> hallucination_type (detect_factual_error ''a b c 15'' ''a b c 12'')
       = Some ''numerical_error''"
  by code_simp

lemma equal_doubles_pass:
  "\<not> is_hallucination
       (detect_factual_error ''a b c d 9007199254740993'' ''a b c d 9007199254740992'')"
  by code_simp

text \<open>
  Claim C4. For every claim and every ground truth that normalizes to at least one token,
  \<open>detect_factual_error\<close> returns \<open>is_hallucination = False\<close> iff the normalized strings
  are equal, or the token overlap is at least 1, or the overlap exceeds 0.7 and the numbers
  match; otherwise it returns \<open>is_hallucination = True\<close> with type \<^verbatim>\<open>numerical_error\<close> when
  the numbers mismatch, else \<^verbatim>\<open>fabrication\<close> when the overlap is below 0.3, else
  \<^verbatim>\<open>factual_error\<close>. In every case the confidence is 1 minus the overlap, the overlap
  being the number of truth tokens that occur in the claim divided by the number of truth
  tokens. The quantities are pinned down: the overlap lies between 0 and 1 and reaches 1
  exactly when the claim contains every truth token; the numbers match exactly when the
  normalized ground truth has no digit or both texts yield the same list of doubles; a
  normalized text holds no uppercase letter and no punctuation. Four instances fix the
  behaviour on text: an exact match, a verbose answer with punctuation and capitals, a wrong
  number, and two numerals that are the same double.
\<close>

theorem factual_verdict:
  assumes "set (split (normalize ground_truth)) \<noteq> {}"
  shows "is_hallucination (detect_factual_error claim ground_truth) =
           (\<not> (normalize claim = normalize ground_truth
               \<or> token_overlap_ratio claim ground_truth \<ge> 1
               \<or> (token_overlap_ratio claim ground_truth > 7 / 10
                   \<and> numbers_match claim ground_truth)))
       \<and> hallucination_type (detect_factual_error claim ground_truth) =
           (if is_hallucination (detect_factual_error claim ground_truth)
            then (if \<not> numbers_match claim ground_truth then Some ''numerical_error''
                  else if token_overlap_ratio claim ground_truth < 3 / 10
                  then Some ''fabrication''
                  else Some ''factual_error'')
            else None)
       \<and> confidence (detect_factual_error claim ground_truth) =
           1 - token_overlap_ratio claim ground_truth
       \<and> 0 \<le> token_overlap_ratio claim ground_truth
       \<and> token_overlap_ratio claim ground_truth \<le> 1
       \<and> (token_overlap_ratio claim ground_truth \<ge> 1) =
           (set (split (normalize ground_truth)) \<subseteq> set (split (normalize claim)))
       \<and> numbers_match claim ground_truth =
           ((\<forall>c \<in> set (normalize ground_truth). \<not> isdigit c)
            \<or> extract_numbers (normalize claim) = extract_numbers (normalize ground_truth))
       \<and> (\<forall>c \<in> set (normalize claim). \<not> isupper c \<and> c \<notin> set punctuation)
       \<and> detect_factual_error ''Paris'' ''Paris'' =
           \<lparr> is_hallucination = False, confidence = 0, hallucination_type = None,
             evidence = FactualEvidence
               \<lparr> ev_claim = ''Paris'', ev_ground_truth = ''Paris'', token_overlap = 1,
                 exact_match = True, numerical_match = True,
                 claim_numbers = [], truth_numbers = [] \<rparr>,
             detection_method = ''factual_verification'' \<rparr>
       \<and> \<not> is_hallucination (detect_factual_error ''The capital is Paris, France'' ''Paris'')
       \<and> is_hallucination (detect_factual_error ''a b c 15'' ''a b c 12'')
       \<and> hallucination_type (detect_factual_error ''a b c 15'' ''a b c 12'')
           = Some ''numerical_error''
       \<and> \<not> is_hallucination
             (detect_factual_error ''a b c d 9007199254740993'' ''a b c d 9007199254740992'')"
proof -
  have verdict: "is_hallucination (detect_factual_error claim ground_truth) =
           (\<not> (normalize claim = normalize ground_truth
               \<or> token_overlap_ratio claim ground_truth \<ge> 1
               \<or> (token_overlap_ratio claim ground_truth > 7 / 10
                   \<and> numbers_match claim ground_truth)))"
    using assms
    by (auto simp add: detect_factual_error_def Let_def token_overlap_ratio_def
          numbers_match_def)
  have kind: "hallucination_type (detect_factual_error claim ground_truth) =
           (if is_hallucination (detect_factual_error claim ground_truth)
            then (if \<not> numbers_match claim ground_truth then Some ''numerical_error''
                  else if token_overlap_ratio claim ground_truth < 3 / 10
                  then Some ''fabrication''
                  else Some ''factual_error'')
            else None)"
    using assms
    by (auto simp add: detect_factual_error_def Let_def token_overlap_ratio_def
          numbers_match_def)
  have conf: "confidence (detect_factual_error claim ground_truth) =
           1 - token_overlap_ratio claim ground_truth"
    using assms
    by (simp add: detect_factual_error_def Let_def token_overlap_ratio_def)
  have nums: "numbers_match claim ground_truth =
           ((\<forall>c \<in> set (normalize ground_truth). \<not> isdigit c)
            \<or> extract_numbers (normalize claim) = extract_numbers (normalize ground_truth))"
    by (simp add: numbers_match_def extract_numbers_empty_iff)
  have chars: "\<forall>c \<in> set (normalize claim). \<not> isupper c \<and> c \<notin> set punctuation"
    using normalize_chars by blast
  from verdict kind conf overlap_bounds [OF assms, of claim] nums chars
    paris_is_paris verbose_answer_passes wrong_number_is_flagged equal_doubles_pass
  show ?thesis
    by (intro conjI) (assumption | erule conjunct1 | erule conjunct2)+
qed

lemma tokens_of_paris: "split (normalize ''Paris'') = [''paris'']"
  by code_simp

lemma overlap_lyon_paris: "token_overlap_ratio ''Lyon'' ''Paris'' = 0"
  by code_simp

lemma numbers_lyon_paris: "numbers_match ''Lyon'' ''Paris''"
  by code_simp

lemma lyon_is_not_paris: "normalize ''Lyon'' \<noteq> normalize ''Paris''"
  by code_simp

theorem factual_verdict_witness:
  "set (split (normalize ''Paris'')) \<noteq> {}
   \<and> is_hallucination (detect_factual_error ''Lyon'' ''Paris'')
   \<and> hallucination_type (detect_factual_error ''Lyon'' ''Paris'') = Some ''fabrication''
   \<and> confidence (detect_factual_error ''Lyon'' ''Paris'') = 1"
proof -
  have ne: "set (split (normalize ''Paris'')) \<noteq> {}"
    by (simp add: tokens_of_paris)
  note inst = factual_verdict [OF ne, of "''Lyon''"]
  note v = inst [THEN conjunct1]
  note k = inst [THEN conjunct2, THEN conjunct1]
  note c = inst [THEN conjunct2, THEN conjunct2, THEN conjunct1]
  have h: "is_hallucination (detect_factual_error ''Lyon'' ''Paris'')"
    unfolding v by (simp add: overlap_lyon_paris lyon_is_not_paris)
  have t: "hallucination_type (detect_factual_error ''Lyon'' ''Paris'') = Some ''fabrication''"
    unfolding k using h by (simp add: overlap_lyon_paris numbers_lyon_paris)
  have f: "confidence (detect_factual_error ''Lyon'' ''Paris'') = 1"
    unfolding c by (simp add: overlap_lyon_paris)
  from ne h t f show ?thesis
    by (intro conjI)
qed

subsection \<open>The numerical-match flag\<close>

text \<open>
  Claim C5 says that \<open>numerical_match\<close> compares the numbers of the claim and of the ground
  truth as sets. The code compares the two lists with \<^verbatim>\<open>==\<close>. For the claim \<^verbatim>\<open>2 1\<close> and
  the ground truth \<^verbatim>\<open>1 2\<close> the sets of numbers are equal and the flag is false.
\<close>

theorem numerical_match_is_not_set_equality:
  "evidence (detect_factual_error ''2 1'' ''1 2'') =
     FactualEvidence
       \<lparr> ev_claim = ''2 1'', ev_ground_truth = ''1 2'', token_overlap = 1,
         exact_match = False, numerical_match = False,
         claim_numbers = [Finite 2, Finite 1], truth_numbers = [Finite 1, Finite 2] \<rparr>
   \<and> set [Finite 2, Finite 1] = set [Finite 1, Finite 2]"
  by code_simp

lemma numerals_with_one_double:
  "float_of_literal ''9007199254740993'' = Finite 9007199254740992
   \<and> float_of_literal ''9007199254740992'' = Finite 9007199254740992"
  by code_simp

lemma evidence_of_one_double:
  "evidence (detect_factual_error ''a b c d 9007199254740993'' ''a b c d 9007199254740992'') =
     FactualEvidence
       \<lparr> ev_claim = ''a b c d 9007199254740993'',
         ev_ground_truth = ''a b c d 9007199254740992'', token_overlap = 4 / 5,
         exact_match = False, numerical_match = True,
         claim_numbers = [Finite 9007199254740992],
         truth_numbers = [Finite 9007199254740992] \<rparr>"
  by code_simp

text \<open>
  Claim C5, amended. For every ground truth with at least one token, the evidence field
  \<open>numerical_match\<close> is true iff the ground truth (normalized) contains no numeric literal,
  or the list of numbers extracted from the claim equals the list extracted from the ground
  truth: same numbers, same order, same multiplicity. The ground truth contains no numeric
  literal exactly when its normalized text has no digit. The numbers are the doubles that
  \<^verbatim>\<open>float\<close> returns, so two numerals that round to the same double are the same number.
\<close>

theorem numerical_match_is_list_equality:
  assumes "set (split (normalize ground_truth)) \<noteq> {}"
  shows "evidence (detect_factual_error claim ground_truth) =
     FactualEvidence
       \<lparr> ev_claim = claim, ev_ground_truth = ground_truth,
         token_overlap = token_overlap_ratio claim ground_truth,
         exact_match = (normalize claim = normalize ground_truth),
         numerical_match =
           (extract_numbers (normalize ground_truth) = []
            \<or> extract_numbers (normalize claim) = extract_numbers (normalize ground_truth)),
         claim_numbers = extract_numbers (normalize claim),
         truth_numbers = extract_numbers (normalize ground_truth) \<rparr>
     \<and> (extract_numbers (normalize ground_truth) = [])
         = (\<forall>c \<in> set (normalize ground_truth). \<not> isdigit c)
     \<and> float_of_literal ''9007199254740993'' = Finite 9007199254740992
     \<and> float_of_literal ''9007199254740992'' = Finite 9007199254740992
     \<and> evidence
          (detect_factual_error ''a b c d 9007199254740993'' ''a b c d 9007199254740992'') =
         FactualEvidence
           \<lparr> ev_claim = ''a b c d 9007199254740993'',
             ev_ground_truth = ''a b c d 9007199254740992'', token_overlap = 4 / 5,
             exact_match = False, numerical_match = True,
             claim_numbers = [Finite 9007199254740992],
             truth_numbers = [Finite 9007199254740992] \<rparr>"
proof -
  have general: "evidence (detect_factual_error claim ground_truth) =
     FactualEvidence
       \<lparr> ev_claim = claim, ev_ground_truth = ground_truth,
         token_overlap = token_overlap_ratio claim ground_truth,
         exact_match = (normalize claim = normalize ground_truth),
         numerical_match =
           (extract_numbers (normalize ground_truth) = []
            \<or> extract_numbers (normalize claim) = extract_numbers (normalize ground_truth)),
         claim_numbers = extract_numbers (normalize claim),
         truth_numbers = extract_numbers (normalize ground_truth) \<rparr>"
    using assms
    by (auto simp add: detect_factual_error_def Let_def token_overlap_ratio_def)
  from general extract_numbers_empty_iff [of "normalize ground_truth"]
    numerals_with_one_double evidence_of_one_double
  show ?thesis
    by (intro conjI) (assumption | erule conjunct1 | erule conjunct2)+
qed

lemma tokens_of_one_apple: "split (normalize ''1 apple'') = [''1'', ''apple'']"
  by code_simp

lemma numbers_of_one_apple: "extract_numbers (normalize ''1 apple'') = [Finite 1]"
  by code_simp

lemma numbers_of_one_one_apple:
  "extract_numbers (normalize ''1 1 apple'') = [Finite 1, Finite 1]"
  by code_simp

lemma overlap_of_apples: "token_overlap_ratio ''1 1 apple'' ''1 apple'' = 1"
  by code_simp

lemma apples_differ: "normalize ''1 1 apple'' \<noteq> normalize ''1 apple''"
  by code_simp

theorem numerical_match_is_list_equality_witness:
  "set (split (normalize ''1 apple'')) \<noteq> {}
   \<and> evidence (detect_factual_error ''1 1 apple'' ''1 apple'') =
       FactualEvidence
         \<lparr> ev_claim = ''1 1 apple'', ev_ground_truth = ''1 apple'', token_overlap = 1,
           exact_match = False, numerical_match = False,
           claim_numbers = [Finite 1, Finite 1], truth_numbers = [Finite 1] \<rparr>"
proof -
  have ne: "set (split (normalize ''1 apple'')) \<noteq> {}"
    by (simp add: tokens_of_one_apple)
  note e = numerical_match_is_list_equality [OF ne, of "''1 1 apple''", THEN conjunct1]
  have "evidence (detect_factual_error ''1 1 apple'' ''1 apple'') =
       FactualEvidence
         \<lparr> ev_claim = ''1 1 apple'', ev_ground_truth = ''1 apple'', token_overlap = 1,
           exact_match = False, numerical_match = False,
           claim_numbers = [Finite 1, Finite 1], truth_numbers = [Finite 1] \<rparr>"
    unfolding e
    by (simp add: numbers_of_one_apple numbers_of_one_one_apple overlap_of_apples
          apples_differ)
  with ne show ?thesis
    by (intro conjI)
qed

subsection \<open>Calibration of two confident, correct samples\<close>

text \<open>
  Claim C1 says that for the confidences 0.9, 0.9, both correct, with 10 bins the expected
  calibration error is 0. The single occupied bin has mean confidence 0.9 and accuracy 1,
  so its gap is not zero and neither is the error.
\<close>

theorem ece_of_two_correct_samples_is_not_zero:
  "case confidence_calibration [9 / 10, 9 / 10] [True, True] 10 of
     Inl e \<Rightarrow> False | Inr r \<Rightarrow> ece r \<noteq> 0"
  by code_simp

text \<open>
  Claim C1, amended. For the confidences 0.9, 0.9, both correct, with 10 bins,
  \<open>confidence_calibration\<close> returns the expected calibration error 0.1: the only non-empty
  bin is bin 9 with mean confidence 0.9, accuracy 1 and both samples, and the error is the
  count-weighted sum \<open>2 / 2 * \<bar>0.9 - 1\<bar>\<close> over that bin.
\<close>

theorem ece_of_two_correct_samples:
  "confidence_calibration [9 / 10, 9 / 10] [True, True] 10 =
     Inr \<lparr> ece = 1 / 10,
           bins = [\<lparr> bin_index = 9, bin_range = (9 / 10, 1), avg_confidence = 9 / 10,
                     bin_accuracy = 1, bin_count = 2, gap = 1 / 10 \<rparr>],
           num_bins = Some 10 \<rparr>"
  by code_simp

subsection \<open>Temporal verification\<close>

lemma findall_from_sound:
  "x \<in> set (findall_from m skip prev s) \<Longrightarrow> \<exists>p t k. m p t = Some k \<and> x = take k t"
  by (induction m skip prev s rule: findall_from.induct) (auto split: option.splits)

lemma year_matcher_Some:
  assumes "year_matcher p t = Some k"
  shows "\<exists>a b c d. take k t = [a, b, c, d]
           \<and> ((a = CHR ''1'' \<and> isdigit b \<and> isdigit c \<and> isdigit d)
              \<or> (a = CHR ''2'' \<and> b = CHR ''0'' \<and> c \<in> set ''012'' \<and> isdigit d))"
  using assms by (auto simp: year_matcher_def split: list.splits if_splits)

lemma upt_10: "[0..<10] = [0, 1, 2, 3, 4, 5, 6, 7, 8, 9 :: nat]"
  by code_simp

lemma digit_value_le: "isdigit c \<Longrightarrow> digit_value c \<le> 9"
  by (auto simp: isdigit_def digits_def digit_value_def upt_10)

lemma digit_value_012: "c \<in> set ''012'' \<Longrightarrow> digit_value c \<le> 2"
  by (auto simp: digits_def digit_value_def upt_10)

lemma digit_value_1: "digit_value (CHR ''1'') = 1"
  by (simp add: digits_def digit_value_def upt_10)

lemma digit_value_2: "digit_value (CHR ''2'') = 2"
  by (simp add: digits_def digit_value_def upt_10)

lemma digit_value_0: "digit_value (CHR ''0'') = 0"
  by (simp add: digits_def digit_value_def upt_10)

lemma int_of_digits_4:
  "int_of_digits [a, b, c, d] =
     1000 * int (digit_value a) + 100 * int (digit_value b) + 10 * int (digit_value c)
     + int (digit_value d)"
  by (simp add: int_of_digits_def)

lemma extract_years_range:
  assumes "y \<in> set (extract_years text)"
  shows "(1000 \<le> y \<and> y \<le> 1999) \<or> (2000 \<le> y \<and> y \<le> 2029)"
proof -
  from assms obtain x where x: "x \<in> set (findall year_matcher text)" "y = int_of_digits x"
    by (auto simp: extract_years_def)
  from x(1) obtain p t k where m: "year_matcher p t = Some k" "x = take k t"
    unfolding findall_def using findall_from_sound by blast
  from year_matcher_Some [OF m(1)] m(2) obtain a b c d where
    abcd: "x = [a, b, c, d]"
      "(a = CHR ''1'' \<and> isdigit b \<and> isdigit c \<and> isdigit d)
       \<or> (a = CHR ''2'' \<and> b = CHR ''0'' \<and> c \<in> set ''012'' \<and> isdigit d)"
    by auto
  from abcd(2) show ?thesis
  proof
    assume h: "a = CHR ''1'' \<and> isdigit b \<and> isdigit c \<and> isdigit d"
    then have "digit_value b \<le> 9" "digit_value c \<le> 9" "digit_value d \<le> 9"
      by (simp_all add: digit_value_le)
    with h x(2) abcd(1) show ?thesis
      by (simp add: int_of_digits_4 digit_value_1)
  next
    assume h: "a = CHR ''2'' \<and> b = CHR ''0'' \<and> c \<in> set ''012'' \<and> isdigit d"
    then have "digit_value c \<le> 2" "digit_value d \<le> 9"
      by (simp_all add: digit_value_le digit_value_012)
    with h x(2) abcd(1) show ?thesis
      by (simp add: int_of_digits_4 digit_value_2 digit_value_0)
  qed
qed

text \<open>
  Claim C2 says that \<^verbatim>\<open>It happened in 2099\<close> is reported as a temporal error with
  \<open>years_found = [2099]\<close>. The pattern accepts no token from 2030 on, so no year is found
  in that text and the verdict is the one for a text without temporal references.
\<close>

theorem year_2099_is_not_extracted:
  "detect_temporal_error ''It happened in 2099'' None =
     \<lparr> is_hallucination = False, confidence = 0, hallucination_type = None,
       evidence = NoteEvidence ''No temporal references found'',
       detection_method = ''temporal_verification'' \<rparr>"
  by code_simp

lemma verdict_of_2029: "detect_temporal_error ''It happened in 2029'' None =
     \<lparr> is_hallucination = True, confidence = 9 / 10,
       hallucination_type = Some ''temporal_error'',
       evidence = TemporalEvidence
         \<lparr> years_found = [2029], chronologically_ordered = True, future_years = [2029],
           context_year = None, context_mismatch = False \<rparr>,
       detection_method = ''temporal_verification'' \<rparr>"
  by code_simp

lemma years_of_2099: "extract_years ''It happened in 2099'' = []"
  by code_simp

text \<open>
  Claim C2, amended. No year is extracted from \<^verbatim>\<open>It happened in 2099\<close>, so that text gets
  the verdict of a text without year-like token. A future year inside the extraction window
  is reported: \<^verbatim>\<open>It happened in 2029\<close> (cutoff 2025) returns \<open>is_hallucination = True\<close>
  with type \<^verbatim>\<open>temporal_error\<close> and \<open>years_found = [2029]\<close>. Every text from which no
  year is extracted returns \<open>is_hallucination = False\<close> with confidence 0. Every extracted
  year lies in 1000 to 1999 or in 2000 to 2029.
\<close>

theorem temporal_window_verdicts:
  "extract_years ''It happened in 2099'' = []
   \<and> detect_temporal_error ''It happened in 2029'' None =
     \<lparr> is_hallucination = True, confidence = 9 / 10,
       hallucination_type = Some ''temporal_error'',
       evidence = TemporalEvidence
         \<lparr> years_found = [2029], chronologically_ordered = True, future_years = [2029],
           context_year = None, context_mismatch = False \<rparr>,
       detection_method = ''temporal_verification'' \<rparr>
   \<and> (extract_years text = [] \<longrightarrow>
        detect_temporal_error text ctx =
          \<lparr> is_hallucination = False, confidence = 0, hallucination_type = None,
            evidence = NoteEvidence ''No temporal references found'',
            detection_method = ''temporal_verification'' \<rparr>)
   \<and> (\<forall>y \<in> set (extract_years text). (1000 \<le> y \<and> y \<le> 1999) \<or> (2000 \<le> y \<and> y \<le> 2029))"
proof -
  have none: "extract_years text = [] \<longrightarrow>
        detect_temporal_error text ctx =
          \<lparr> is_hallucination = False, confidence = 0, hallucination_type = None,
            evidence = NoteEvidence ''No temporal references found'',
            detection_method = ''temporal_verification'' \<rparr>"
    by (simp add: detect_temporal_error_def)
  have window: "\<forall>y \<in> set (extract_years text).
                  (1000 \<le> y \<and> y \<le> 1999) \<or> (2000 \<le> y \<and> y \<le> 2029)"
    using extract_years_range by blast
  from years_of_2099 verdict_of_2029 none window show ?thesis
    by (intro conjI)
qed

lemma years_of_plain_text: "extract_years ''Plain text, no dates'' = []"
  by code_simp
lemma years_of_two_dates: "extract_years ''From 1999 to 2026'' = [1999, 2026]"
  by code_simp

theorem temporal_window_verdicts_witness:
  "extract_years ''Plain text, no dates'' = []
   \<and> detect_temporal_error ''Plain text, no dates'' None =
       \<lparr> is_hallucination = False, confidence = 0, hallucination_type = None,
         evidence = NoteEvidence ''No temporal references found'',
         detection_method = ''temporal_verification'' \<rparr>
   \<and> 2026 \<in> set (extract_years ''From 1999 to 2026'')
   \<and> (2000 \<le> (2026::int) \<and> (2026::int) \<le> 2029)"
  using temporal_window_verdicts [of "''Plain text, no dates''" None] temporal_window_verdicts [of "''From 1999 to 2026''" None]
  by (simp add: years_of_plain_text years_of_two_dates)

subsection \<open>Length mismatches in the metrics\<close>

lemma dict_set_keys: "fst ` set (dict_set k v d) = insert k (fst ` set d)"
proof (induction d)
  case Nil
  show ?case by simp
next
  case (Cons p d)
  obtain k' v' where p: "p = (k', v')" by (cases p)
  show ?case
  proof (cases "k = k'")
    case True
    then show ?thesis by (simp add: p)
  next
    case False
    then show ?thesis using Cons.IH by (simp add: p insert_commute)
  qed
qed

lemma prf_same_length:
  "length ps = length gt \<Longrightarrow> \<exists>m. precision_recall_f1 ps gt = Inr m"
  by (simp add: precision_recall_f1_def Let_def)

lemma accuracy_same_length:
  "length ps = length gt \<Longrightarrow> \<exists>a. accuracy ps gt = Inr a"
  by (simp add: accuracy_def)

lemma compare_methods_loop_keys:
  "\<exists>r. compare_methods_loop mr gt acc = Inr r
       \<and> fst ` set r = fst ` set acc \<union> {name. \<exists>ps. (name, ps) \<in> set mr \<and> length ps = length gt}"
proof (induction mr arbitrary: acc)
  case Nil
  then show ?case by simp
next
  case (Cons entry mr)
  obtain name ps where entry: "entry = (name, ps)" by (cases entry)
  show ?case
  proof (cases "length ps = length gt")
    case False
    with Cons.IH [of acc] entry show ?thesis by auto
  next
    case True
    obtain m where m: "precision_recall_f1 ps gt = Inr m"
      using prf_same_length [OF True] by blast
    obtain a where a: "accuracy ps gt = Inr a"
      using accuracy_same_length [OF True] by blast
    let ?acc = "dict_set name \<lparr> method_prf = m, method_accuracy = a,
                   method_hallucination_rate = hallucination_rate ps \<rparr> acc"
    from Cons.IH [of ?acc] obtain r where
      r: "compare_methods_loop mr gt ?acc = Inr r"
         "fst ` set r = fst ` set ?acc \<union> {name. \<exists>ps. (name, ps) \<in> set mr \<and> length ps = length gt}"
      by blast
    have "compare_methods_loop (entry # mr) gt acc = Inr r"
      using True m a r(1) entry by simp
    moreover have "fst ` set r = fst ` set acc \<union> {n. \<exists>qs. (n, qs) \<in> set (entry # mr) \<and> length qs = length gt}"
      using r(2) True entry by (auto simp: dict_set_keys)
    ultimately show ?thesis by blast
  qed
qed

lemma model_comparison_loop_no_value_error:
  "model_comparison_loop mrs gts acc \<noteq> Inl (ValueError msg)"
  by (induction mrs gts acc rule: model_comparison_loop.induct) (auto simp: Let_def)

lemma model_comparison_loop_keys:
  "model_comparison_loop mrs gts acc = Inr r \<Longrightarrow>
   fst ` set r = fst ` set acc \<union> {name. \<exists>rs. (name, rs) \<in> set mrs \<and> length rs = length gts}"
proof (induction mrs gts acc rule: model_comparison_loop.induct)
  case (1 gts acc)
  then show ?case by simp
next
  case (2 name rs rest gts acc)
  show ?case
  proof (cases "length rs = length gts")
    case False
    with 2 show ?thesis by auto
  next
    case True
    with 2 show ?thesis
      by (auto simp: Let_def dict_set_keys split: if_splits)
  qed
qed

text \<open>
  Claim C3 says that every metrics function raises a length-mismatch error on parallel
  sequences of unequal length. \<open>compare_methods\<close> and \<open>model_comparison\<close> do not: an entry
  whose length differs from the number of labels is logged and left out of the result.
\<close>

theorem mismatched_entries_are_skipped:
  "compare_methods [(''self_consistency'', [True])] [] = Inr []
   \<and> model_comparison [(''gemini'', [''Paris''])] [] = Inr []"
  by code_simp

text \<open>
  Claim C3, amended. \<open>accuracy\<close>, \<open>precision_recall_f1\<close>, \<open>confidence_calibration\<close>,
  \<open>error_analysis_by_type\<close> and \<open>mitigation_effectiveness\<close> raise a length-mismatch
  \<^verbatim>\<open>ValueError\<close> when their parallel sequences differ in length. \<open>compare_methods\<close> raises
  nothing and returns exactly the entries whose predictions are as long as the labels;
  \<open>model_comparison\<close> raises no \<^verbatim>\<open>ValueError\<close>, and a result it returns holds exactly the
  entries whose responses are as long as the ground truths. Entries of another length are
  skipped.
\<close>

theorem length_mismatch_handling:
  "(length p \<noteq> length g \<longrightarrow>
      accuracy p g = Inl (ValueError ''Predictions and ground truth must have same length''))
   \<and> (length p \<noteq> length g \<longrightarrow>
      precision_recall_f1 p g
        = Inl (ValueError ''Predictions and ground truth must have same length''))
   \<and> (length cs \<noteq> length co \<longrightarrow>
      confidence_calibration cs co n
        = Inl (ValueError ''Confidences and correct must have same length''))
   \<and> (\<not> (length p = length g \<and> length g = length h) \<longrightarrow>
      error_analysis_by_type p g h = Inl (ValueError ''All inputs must have same length''))
   \<and> (length b \<noteq> length m \<longrightarrow>
      mitigation_effectiveness b m = Inl (ValueError ''Inputs must have same length''))
   \<and> (\<exists>r. compare_methods mr gt = Inr r
          \<and> fst ` set r = {name. \<exists>ps. (name, ps) \<in> set mr \<and> length ps = length gt})
   \<and> (\<forall>msg. model_comparison mrs gts \<noteq> Inl (ValueError msg))
   \<and> (\<forall>r. model_comparison mrs gts = Inr r \<longrightarrow>
          fst ` set r = {name. \<exists>rs. (name, rs) \<in> set mrs \<and> length rs = length gts})"
proof -
  have cm: "\<exists>r. compare_methods mr gt = Inr r
          \<and> fst ` set r = {name. \<exists>ps. (name, ps) \<in> set mr \<and> length ps = length gt}"
    using compare_methods_loop_keys [of mr gt "[]"] by (simp add: compare_methods_def)
  have mc1: "\<forall>msg. model_comparison mrs gts \<noteq> Inl (ValueError msg)"
    by (simp add: model_comparison_def model_comparison_loop_no_value_error)
  have mc2: "\<forall>r. model_comparison mrs gts = Inr r \<longrightarrow>
          fst ` set r = {name. \<exists>rs. (name, rs) \<in> set mrs \<and> length rs = length gts}"
    using model_comparison_loop_keys [of mrs gts "[]"] by (simp add: model_comparison_def)
  have raising:
    "length p \<noteq> length g \<longrightarrow>
       accuracy p g = Inl (ValueError ''Predictions and ground truth must have same length'')"
    "length p \<noteq> length g \<longrightarrow>
       precision_recall_f1 p g
         = Inl (ValueError ''Predictions and ground truth must have same length'')"
    "length cs \<noteq> length co \<longrightarrow>
       confidence_calibration cs co n
         = Inl (ValueError ''Confidences and correct must have same length'')"
    "\<not> (length p = length g \<and> length g = length h) \<longrightarrow>
       error_analysis_by_type p g h = Inl (ValueError ''All inputs must have same length'')"
    "length b \<noteq> length m \<longrightarrow>
       mitigation_effectiveness b m = Inl (ValueError ''Inputs must have same length'')"
    by (simp_all add: accuracy_def precision_recall_f1_def confidence_calibration_def
          error_analysis_by_type_def mitigation_effectiveness_def)
  from raising cm mc1 mc2 show ?thesis by (intro conjI)
qed

lemma compare_two_models:
  "model_comparison [(''x'', [''Paris'']), (''y'', [])] [''paris''] =
     Inr [(''x'', \<lparr> exact_match_rate = 1, avg_token_overlap = 1,
                    model_hallucination_rate = 0, model_num_samples = 1 \<rparr>)]"
  by code_simp

lemma keys_of_two_entries:
  "length x = k \<Longrightarrow> length y \<noteq> k \<Longrightarrow>
   {name. \<exists>ps. (name, ps) \<in> set [(a, x), (b, y)] \<and> length ps = k} = {a}"
  by auto

theorem length_mismatch_handling_witness:
  "length [True] \<noteq> length ([] :: bool list)
   \<and> accuracy [True] [] = Inl (ValueError ''Predictions and ground truth must have same length'')
   \<and> precision_recall_f1 [True] []
       = Inl (ValueError ''Predictions and ground truth must have same length'')
   \<and> confidence_calibration [1 / 2] [] 10
       = Inl (ValueError ''Confidences and correct must have same length'')
   \<and> error_analysis_by_type [True] [] [''fabrication'']
       = Inl (ValueError ''All inputs must have same length'')
   \<and> mitigation_effectiveness [True] [] = Inl (ValueError ''Inputs must have same length'')
   \<and> (\<exists>r. compare_methods [(''a'', [True, False]), (''b'', [True])] [True, True] = Inr r
          \<and> fst ` set r = {''a''})
   \<and> model_comparison [(''x'', [''Paris'']), (''y'', [])] [''paris''] =
       Inr [(''x'', \<lparr> exact_match_rate = 1, avg_token_overlap = 1,
                      model_hallucination_rate = 0, model_num_samples = 1 \<rparr>)]
   \<and> {name. \<exists>rs. (name, rs) \<in> set [(''x'', [''Paris'']), (''y'', [])]
                   \<and> length rs = length [''paris'']} = {''x''}"
proof -
  note inst = length_mismatch_handling [of "[True]" "[]" "[1 / 2]" "[]" 10 "[''fabrication'']" "[True]" "[]"
                "[(''a'', [True, False]), (''b'', [True])]" "[True, True]"
                "[(''x'', [''Paris'']), (''y'', [])]" "[''paris'']"]
  note c1 = inst [THEN conjunct1]
  note r1 = inst [THEN conjunct2]
  note c2 = r1 [THEN conjunct1]
  note r2 = r1 [THEN conjunct2]
  note c3 = r2 [THEN conjunct1]
  note r3 = r2 [THEN conjunct2]
  note c4 = r3 [THEN conjunct1]
  note r4 = r3 [THEN conjunct2]
  note c5 = r4 [THEN conjunct1]
  note r5 = r4 [THEN conjunct2]
  note c6 = r5 [THEN conjunct1]
  have ne: "length [True] \<noteq> length ([] :: bool list)"
    by simp
  have ne3: "\<not> (length [True] = length ([] :: bool list)
                \<and> length ([] :: bool list) = length [''fabrication''])"
    by simp
  have ne_c: "length [1 / 2 :: rat] \<noteq> length ([] :: bool list)"
    by simp
  have raised:
    "accuracy [True] [] = Inl (ValueError ''Predictions and ground truth must have same length'')"
    "precision_recall_f1 [True] []
       = Inl (ValueError ''Predictions and ground truth must have same length'')"
    "confidence_calibration [1 / 2] [] 10
       = Inl (ValueError ''Confidences and correct must have same length'')"
    "error_analysis_by_type [True] [] [''fabrication'']
       = Inl (ValueError ''All inputs must have same length'')"
    "mitigation_effectiveness [True] [] = Inl (ValueError ''Inputs must have same length'')"
    using c1 [rule_format, OF ne] c2 [rule_format, OF ne] c3 [rule_format, OF ne_c]
      c4 [rule_format, OF ne3] c5 [rule_format, OF ne]
    by - assumption+
  have keys_a: "{name. \<exists>ps. (name, ps) \<in> set [(''a'', [True, False]), (''b'', [True])]
                       \<and> length ps = length [True, True]} = {''a''}"
    by (rule keys_of_two_entries) simp_all
  have kept: "\<exists>r. compare_methods [(''a'', [True, False]), (''b'', [True])] [True, True] = Inr r
          \<and> fst ` set r = {''a''}"
    using c6 unfolding keys_a .
  have keys_x: "{name. \<exists>rs. (name, rs) \<in> set [(''x'', [''Paris'']), (''y'', [])]
                   \<and> length rs = length [''paris'']} = {''x''}"
    by (rule keys_of_two_entries) simp_all
  from ne raised kept compare_two_models keys_x show ?thesis
    by (intro conjI)
qed

subsection \<open>Aggregation of verdicts\<close>

















subsection \<open>Agreement of identical responses\<close>

lemma counter_fold_replicate:
  "foldl (\<lambda>c x. counter_add x c) [(s, k)] (replicate n s) = [(s, k + n)]"
  by (induction n arbitrary: k) simp_all

lemma Counter_replicate: "Counter (replicate (Suc n) s) = [(s, Suc n)]"
  by (simp add: Counter_def counter_fold_replicate)

lemma similarity_row_of_equal_sets:
  assumes "card T > 0"
  shows "concat (map (\<lambda>u. if card (T \<union> u) > 0
                       then [of_nat (card (T \<inter> u)) / of_nat (card (T \<union> u))]
                       else []) (replicate n T)) = replicate n (1 :: rat)"
  using assms by simp

lemma similarities_of_equal_sets:
  assumes "card T > 0"
  shows "set (pairwise_similarities (replicate n T)) \<subseteq> {1}"
proof (induction n)
  case 0
  show ?case by simp
next
  case (Suc n)
  have "pairwise_similarities (replicate (Suc n) T)
          = replicate n 1 @ pairwise_similarities (replicate n T)"
    using similarity_row_of_equal_sets [OF assms, of n] by simp
  with Suc.IH show ?case by auto
qed

lemma similarities_of_equal_sets_nonempty:
  assumes "card T > 0"
  shows "pairwise_similarities (replicate (Suc (Suc n)) T) \<noteq> []"
proof -
  have "pairwise_similarities (replicate (Suc (Suc n)) T)
          = replicate (Suc n) 1 @ pairwise_similarities (replicate (Suc n) T)"
    using similarity_row_of_equal_sets [OF assms, of "Suc n"] by simp
  then show ?thesis by simp
qed

lemma similarities_of_empty_sets: "pairwise_similarities (replicate n {}) = []"
  by (induction n) simp_all

lemma sum_list_ones: "set xs \<subseteq> {1 :: rat} \<Longrightarrow> sum_list xs = of_nat (length xs)"
  by (induction xs) simp_all

lemma mean_ones: "xs \<noteq> [] \<Longrightarrow> set xs \<subseteq> {1} \<Longrightarrow> mean xs = 1"
  by (simp add: mean_def sum_list_ones)

lemma half_ratio: "(2 + rat_of_nat n) / (4 + rat_of_nat n * 2) = 1 / 2"
proof -
  have pos: "2 + rat_of_nat n \<noteq> 0"
    using of_nat_0_le_iff [of n, where 'a = rat] by linarith
  have "4 + rat_of_nat n * 2 = 2 * (2 + rat_of_nat n)"
    by simp
  then show ?thesis
    using pos by simp
qed

lemma agreement_of_equal_responses:
  "calculate_agreement (replicate (Suc (Suc n)) s) = (if split s = [] then 1 / 2 else 1)"
proof (cases "split s = []")
  case True
  then show ?thesis
    by (simp add: calculate_agreement_def Counter_replicate Let_def similarities_of_empty_sets
          del: replicate.simps pairwise_similarities.simps)
next
  case False
  then have c: "card (set (split s)) > 0"
    by (simp add: card_gt_0_iff)
  have ne: "pairwise_similarities (replicate (Suc (Suc n)) (set (split s))) \<noteq> []"
    using c by (rule similarities_of_equal_sets_nonempty)
  have m: "mean (pairwise_similarities (replicate (Suc (Suc n)) (set (split s)))) = 1"
    using ne similarities_of_equal_sets [OF c] by (rule mean_ones)
  from False show ?thesis
    by (simp add: calculate_agreement_def Counter_replicate Let_def ne m half_ratio
          del: replicate.simps pairwise_similarities.simps)
qed

text \<open>
  Claim C7, amended. For every response list of length at least 2 whose elements are all
  the same string: if the string has at least one token, the agreement score is 1 and the
  self-consistency verdict (threshold 0.6) has \<open>is_hallucination = False\<close>; if it has no
  token, the score is 0.5 and the verdict has \<open>is_hallucination = True\<close>.
\<close>

theorem identical_responses_agreement:
  assumes "2 \<le> length rs" and "\<forall>r \<in> set rs. r = s"
  shows "(split s \<noteq> [] \<longrightarrow>
            calculate_agreement rs = 1 \<and> \<not> is_hallucination (consistency_verdict rs))
       \<and> (split s = [] \<longrightarrow>
            calculate_agreement rs = 1 / 2 \<and> is_hallucination (consistency_verdict rs))"
proof -
  from assms(1) obtain k where "length rs = 2 + k"
    using le_Suc_ex by blast
  then have n: "length rs = Suc (Suc k)"
    by simp
  from assms(2) have "replicate (length rs) s = rs"
    by (rule replicate_length_same)
  with n have rs: "rs = replicate (Suc (Suc k)) s"
    by simp
  have a: "calculate_agreement rs = (if split s = [] then 1 / 2 else 1)"
    unfolding rs by (rule agreement_of_equal_responses)
  have l: "\<not> length rs < 2"
    using assms(1) by simp
  have v: "is_hallucination (consistency_verdict rs) = (calculate_agreement rs < 6 / 10)"
    using l by (simp add: consistency_verdict_def Let_def)
  show ?thesis
    unfolding v a by simp
qed

text \<open>
  Claim C7 says that identical responses always have agreement 1. Two identical responses
  without any token (here two empty strings) have token sets with an empty union: no
  similarity is recorded, the token agreement is 0, the score is 0.5 and the verdict is a
  hallucination.
\<close>

theorem empty_responses_disagree:
  "calculate_agreement [[], []] = 1 / 2 \<and> is_hallucination (consistency_verdict [[], []])"
  by code_simp

lemma paris_tokens: "split ''paris'' = [''paris'']"
  by code_simp

theorem identical_responses_agreement_witness:
  "2 \<le> length [''paris'', ''paris'', ''paris'']
   \<and> set [''paris'', ''paris'', ''paris''] = {''paris''}
   \<and> split ''paris'' \<noteq> []
   \<and> calculate_agreement [''paris'', ''paris'', ''paris''] = 1
   \<and> \<not> is_hallucination (consistency_verdict [''paris'', ''paris'', ''paris''])"
proof -
  have len: "2 \<le> length [''paris'', ''paris'', ''paris'']"
    by simp
  have same: "\<forall>r \<in> set [''paris'', ''paris'', ''paris'']. r = ''paris''"
    by simp
  have tok: "split ''paris'' \<noteq> []"
    by (simp add: paris_tokens)
  from identical_responses_agreement [OF len same] tok
  have "calculate_agreement [''paris'', ''paris'', ''paris''] = 1
        \<and> \<not> is_hallucination (consistency_verdict [''paris'', ''paris'', ''paris''])"
    by blast
  moreover have "set [''paris'', ''paris'', ''paris''] = {''paris''}"
    by simp
  ultimately show ?thesis
    using len tok by blast
qed

end
